theory Spec2Isabelle
  imports Main "HOL-Library.AList" "HOL-Library.Sublist"
begin

section \<open>Data model (types.ts)\<close>

text \<open>
  The enum \<open>BlockType\<close>, and the interfaces \<open>ContentBlock\<close>, \<open>Page\<close> and
  \<open>PageTemplate\<close>. An optional field of the interface is an \<open>option\<close>. The field
  \<open>id\<close> of a block, of a page and of a template is written \<open>block_id\<close>, \<open>page_id\<close>,
  \<open>template_id\<close> (\<open>id\<close> is the identity function of HOL), the field \<open>type\<close> is
  \<open>block_type\<close>, and the field \<open>title\<close> of a citation is \<open>web_title\<close>.
  Strings are byte strings (UTF-8). The \<open>id\<close> of a page is an \<open>option\<close> although the
  interface requires it: the values of \<open>pages\<close> are objects of the running program, and
  the one that \<open>updateBlocksForCurrentPage\<close> stores under a key that it found on the
  prototype has a \<open>title\<close> and \<open>blocks\<close> but no \<open>id\<close>. Every page that \<open>handleAddPage\<close>
  makes has one.
\<close>

datatype BlockType = H1 | H2 | P | UL | OL | TODO | IMG | QUOTE | DIVIDER | CODE | AI_SEARCH_RESULT

record web_ref =
  uri :: string
  web_title :: string

record source =
  web :: web_ref

record ContentBlock =
  block_id :: string
  block_type :: BlockType
  content :: string
  checked :: "bool option"
  src :: "string option"
  language :: "string option"
  sources :: "source list option"

record Page =
  page_id :: "string option"
  title :: string
  blocks :: "ContentBlock list"

record PageTemplate =
  template_id :: string
  name :: string
  description :: string
  template_blocks :: "ContentBlock list"

datatype Theme = light | dark

section \<open>JavaScript values used by the component\<close>

subsection \<open>Objects of type \<open>Record<string, Page>\<close>\<close>

text \<open>
  An object is the list of its own properties in insertion order. The spread
  \<open>{...prev, [k]: v}\<close> is \<open>AList.update k v prev\<close> (an existing key keeps its place, a
  new one goes last; a computed key \<open>__proto__\<close> makes an own property like any other),
  \<open>delete o[k]\<close> is \<open>AList.delete k o\<close>. \<open>Object.keys\<close> lists the keys that are array
  indices first, in ascending numeric order, then the other keys in insertion order.
\<close>

type_synonym 'v object = "(string \<times> 'v) list"

text \<open>
  The read \<open>prev[k]\<close> follows the prototype chain. The objects of the component are
  made by object literals and by \<open>JSON.parse\<close>, so their prototype is
  \<open>Object.prototype\<close>: a key that is not an own property and is one of the names below
  reads a property of the prototype. What is read there is a built-in function (for
  \<open>__proto__\<close> the prototype itself): a truthy value with no enumerable own property,
  and with no property \<open>id\<close> or \<open>blocks\<close>. Any other key that is not an own property
  reads \<open>undefined\<close>.
\<close>

definition object_prototype_names :: "string list" where
  "object_prototype_names =
     [''constructor'', ''__defineGetter__'', ''__defineSetter__'', ''hasOwnProperty'',
      ''__lookupGetter__'', ''__lookupSetter__'', ''isPrototypeOf'',
      ''propertyIsEnumerable'', ''toString'', ''valueOf'', ''__proto__'',
      ''toLocaleString'']"

datatype 'v property = Undefined | Own 'v | Inherited

definition get_property :: "'v object \<Rightarrow> string \<Rightarrow> 'v property" where
  "get_property obj k =
     (case map_of obj k of
        Some v \<Rightarrow> Own v
      | None \<Rightarrow> if k \<in> set object_prototype_names then Inherited else Undefined)"

definition is_digit :: "char \<Rightarrow> bool" where
  "is_digit c \<longleftrightarrow> 48 \<le> (of_char c :: int) \<and> (of_char c :: int) \<le> 57"

definition int_of_digits :: "string \<Rightarrow> int" where
  "int_of_digits ds = foldl (\<lambda>n c. 10 * n + (of_char c - 48)) 0 ds"

definition is_array_index :: "string \<Rightarrow> bool" where
  "is_array_index k \<longleftrightarrow>
     k \<noteq> [] \<and> list_all is_digit k \<and> (length k = 1 \<or> hd k \<noteq> CHR ''0'')
     \<and> int_of_digits k < 4294967295"

definition object_keys :: "'v object \<Rightarrow> string list" where
  "object_keys obj =
     (let ks = map fst obj
      in sort_key int_of_digits (filter is_array_index ks)
         @ filter (\<lambda>k. \<not> is_array_index k) ks)"

subsection \<open>Truthiness of a \<open>string | null\<close>\<close>

text \<open>\<open>null\<close> and the empty string are falsy, every other string is truthy.\<close>

definition truthy :: "string option \<Rightarrow> bool" where
  "truthy v = (case v of None \<Rightarrow> False | Some str \<Rightarrow> str \<noteq> [])"

subsection \<open>Numbers in template literals\<close>

text \<open>
  \<open>Date.now()\<close> is an integer number of milliseconds; each reading of the clock is an
  argument of the handler that takes it. \<open>show_int\<close> is the decimal notation that a
  template literal gives an integer; \<open>show_digits\<close> is called on integers from 0 on.
\<close>

function show_digits :: "int \<Rightarrow> string" where
  "show_digits n =
     (if n < 10 then [char_of (48 + n)]
      else show_digits (n div 10) @ [char_of (48 + n mod 10)])"
  by pat_completeness auto
termination
  by (relation "measure nat") auto

declare show_digits.simps [simp del]

definition show_int :: "int \<Rightarrow> string" where
  "show_int i = (if i < 0 then CHR ''-'' # show_digits (- i) else show_digits i)"

subsection \<open>\<open>String.prototype.replace(/<[^>]*>?/gm, '')\<close>\<close>

text \<open>
  The pattern matches a \<open><\<close>, then as many characters other than \<open>>\<close> as there are
  (line breaks included), then a \<open>>\<close> if there is one; every match is replaced by the
  empty string, from left to right. \<open>strip_from True\<close> is the scan inside a match,
  \<open>strip_from False\<close> the scan outside.
\<close>

fun strip_from :: "bool \<Rightarrow> string \<Rightarrow> string" where
  "strip_from inside [] = []"
| "strip_from True (c # cs) = (if c = CHR ''>'' then strip_from False cs else strip_from True cs)"
| "strip_from False (c # cs) = (if c = CHR ''<'' then strip_from True cs else c # strip_from False cs)"

definition replace_tags :: "string \<Rightarrow> string" where
  "replace_tags str = strip_from False str"

subsection \<open>\<open>String.prototype.trim\<close>\<close>

text \<open>
  \<open>trim\<close> removes the white space and line terminators of ECMAScript at both ends:
  U+0009 to U+000D, U+0020, U+00A0, U+1680, U+2000 to U+200A, U+2028, U+2029, U+202F,
  U+205F, U+3000 and U+FEFF, here in their UTF-8 encodings.
\<close>

definition white_space :: "string list" where
  "white_space =
     [ [CHR 0x09], [CHR 0x0A], [CHR 0x0B], [CHR 0x0C], [CHR 0x0D], [CHR 0x20],
      [CHR 0xC2, CHR 0xA0],
      [CHR 0xE1, CHR 0x9A, CHR 0x80],
      [CHR 0xE2, CHR 0x80, CHR 0x80], [CHR 0xE2, CHR 0x80, CHR 0x81],
      [CHR 0xE2, CHR 0x80, CHR 0x82], [CHR 0xE2, CHR 0x80, CHR 0x83],
      [CHR 0xE2, CHR 0x80, CHR 0x84], [CHR 0xE2, CHR 0x80, CHR 0x85],
      [CHR 0xE2, CHR 0x80, CHR 0x86], [CHR 0xE2, CHR 0x80, CHR 0x87],
      [CHR 0xE2, CHR 0x80, CHR 0x88], [CHR 0xE2, CHR 0x80, CHR 0x89],
      [CHR 0xE2, CHR 0x80, CHR 0x8A],
      [CHR 0xE2, CHR 0x80, CHR 0xA8], [CHR 0xE2, CHR 0x80, CHR 0xA9],
      [CHR 0xE2, CHR 0x80, CHR 0xAF],
      [CHR 0xE2, CHR 0x81, CHR 0x9F],
      [CHR 0xE3, CHR 0x80, CHR 0x80],
      [CHR 0xEF, CHR 0xBB, CHR 0xBF] ]"

definition starts_with :: "string \<Rightarrow> string \<Rightarrow> bool" where
  "starts_with str w \<longleftrightarrow> take (length w) str = w"

text \<open>
  \<open>trim_with ws fuel str\<close> drops the leading members of \<open>ws\<close> from \<open>str\<close>; every
  member is at least one character long, so \<open>length str\<close> rounds are enough.
\<close>

fun trim_with :: "string list \<Rightarrow> nat \<Rightarrow> string \<Rightarrow> string" where
  "trim_with ws 0 str = str"
| "trim_with ws (Suc fuel) str =
     (case find (starts_with str) ws of
        None \<Rightarrow> str
      | Some w \<Rightarrow> trim_with ws fuel (drop (length w) str))"

definition trimStart :: "string \<Rightarrow> string" where
  "trimStart str = trim_with white_space (length str) str"

definition trimEnd :: "string \<Rightarrow> string" where
  "trimEnd str = rev (trim_with (map rev white_space) (length str) (rev str))"

definition trim :: "string \<Rightarrow> string" where
  "trim str = trimEnd (trimStart str)"

section \<open>The component state and its handlers (App)\<close>

text \<open>
  The five \<open>useState\<close> cells of \<open>App\<close>. A handler is a function from the state of
  the render it was created in to the state after its updates; a functional update
  \<open>setPages(prev => ...)\<close> is run where the handler calls it, on the pages that the
  earlier updates of the same handler left.
\<close>

record state =
  pages :: "Page object"
  currentPageId :: "string option"
  theme :: Theme
  isCommandPaletteOpen :: bool
  isAiSearchOpen :: bool

definition initial_state :: state where
  "initial_state =
     \<lparr>pages = [], currentPageId = None, theme = light,
      isCommandPaletteOpen = False, isAiSearchOpen = False\<rparr>"

subsection \<open>handleAddPage (lines 90 to 113)\<close>

text \<open>
  \<open>t_page\<close>, \<open>t_b1\<close> and \<open>t_b2\<close> are the three readings of \<open>Date.now()\<close>, in the order
  of evaluation. The argument \<open>blocks\<close> is \<open>None\<close> when the handler is called with no
  argument; an array, also the empty one, is truthy.
\<close>

definition defaultBlocks :: "int \<Rightarrow> int \<Rightarrow> ContentBlock list" where
  "defaultBlocks t_b1 t_b2 =
     [\<lparr>block_id = show_int t_b1 @ ''-1'', block_type = H1, content = ''Untitled'',
       checked = None, src = None, language = None, sources = None\<rparr>,
      \<lparr>block_id = show_int t_b2 @ ''-2'', block_type = P, content = [],
       checked = None, src = None, language = None, sources = None\<rparr>]"

definition newPage :: "ContentBlock list option \<Rightarrow> int \<Rightarrow> int \<Rightarrow> int \<Rightarrow> Page" where
  "newPage blocks_arg t_page t_b1 t_b2 =
     (let newPageId = ''page-'' @ show_int t_page;
          page = \<lparr>page_id = Some newPageId, title = ''Untitled'',
                  blocks = (case blocks_arg of Some bs \<Rightarrow> bs
                            | None \<Rightarrow> defaultBlocks t_b1 t_b2)\<rparr>
      in case blocks_arg of
           None \<Rightarrow> page
         | Some bs \<Rightarrow>
             (case find (\<lambda>b. block_type b = H1) bs of
                None \<Rightarrow> page
              | Some h1Block \<Rightarrow> page\<lparr>title := content h1Block\<rparr>))"

definition handleAddPage :: "ContentBlock list option \<Rightarrow> int \<Rightarrow> int \<Rightarrow> int \<Rightarrow> state \<Rightarrow> state" where
  "handleAddPage blocks_arg t_page t_b1 t_b2 s =
     (let newPageId = ''page-'' @ show_int t_page;
          page = newPage blocks_arg t_page t_b1 t_b2
      in s\<lparr>pages := AList.update newPageId page (pages s),
           currentPageId := Some newPageId\<rparr>)"

subsection \<open>handleDeletePage (lines 115 to 131)\<close>

text \<open>
  The three clock readings are those of the call of \<open>handleAddPage\<close> in the last
  branch.
\<close>

definition handleDeletePage :: "string \<Rightarrow> int \<Rightarrow> int \<Rightarrow> int \<Rightarrow> state \<Rightarrow> state" where
  "handleDeletePage pageIdToDelete t_page t_b1 t_b2 s =
     (let remainingPageIds = filter (\<lambda>k. k \<noteq> pageIdToDelete) (object_keys (pages s));
          s1 = s\<lparr>pages := AList.delete pageIdToDelete (pages s)\<rparr>
      in if currentPageId s = Some pageIdToDelete then
           (case remainingPageIds of
              k # _ \<Rightarrow> s1\<lparr>currentPageId := Some k\<rparr>
            | [] \<Rightarrow> handleAddPage None t_page t_b1 t_b2 s1)
         else s1)"

subsection \<open>handleSwitchPage (lines 133 to 136)\<close>

definition handleSwitchPage :: "string \<Rightarrow> state \<Rightarrow> state" where
  "handleSwitchPage pageId s = s\<lparr>currentPageId := Some pageId, isCommandPaletteOpen := False\<rparr>"

subsection \<open>updateBlocksForCurrentPage (lines 138 to 157)\<close>

text \<open>
  \<open>prev[currentPageId]\<close> is falsy only when it is \<open>undefined\<close>. When it is a property of
  the prototype, the spread \<open>...currentPage\<close> copies nothing, and the new own entry
  under that key has the blocks and the title and no \<open>id\<close>.
\<close>

definition updateBlocksForCurrentPage :: "ContentBlock list \<Rightarrow> state \<Rightarrow> state" where
  "updateBlocksForCurrentPage newBlocks s =
     (if \<not> truthy (currentPageId s) then s
      else
        let cur = the (currentPageId s);
            h1Block = find (\<lambda>b. block_type b = H1) newBlocks;
            newTitle = (case h1Block of
                          Some b \<Rightarrow> trim (replace_tags (content b))
                        | None \<Rightarrow> ''Untitled'');
            newTitle' = (if newTitle \<noteq> [] then newTitle else ''Untitled'')
        in case get_property (pages s) cur of
             Undefined \<Rightarrow> s
           | Own currentPage \<Rightarrow>
               s\<lparr>pages :=
                   AList.update cur (currentPage\<lparr>blocks := newBlocks, title := newTitle'\<rparr>)
                     (pages s)\<rparr>
           | Inherited \<Rightarrow>
               s\<lparr>pages :=
                   AList.update cur \<lparr>page_id = None, title = newTitle', blocks = newBlocks\<rparr>
                     (pages s)\<rparr>)"

subsection \<open>handleAiSearch (lines 165 to 197)\<close>

text \<open>
  The handler is asynchronous. \<open>handleAiSearch_begin\<close> is the part before the
  \<open>await\<close>, run on the state of the render that created the handler: it gives the
  page id that the continuation keeps, or \<open>None\<close> when the handler returns at once.
  \<open>handleAiSearch_resume\<close> is the part after the \<open>await\<close>, run on the state at the
  time \<open>generateWithGoogleSearch\<close> settles. The outcome of a promise is \<open>Rejected\<close>
  with the error or \<open>Fulfilled\<close> with the value; a handler gives back the state it
  leaves and the outcome of its own promise. The fields \<open>text\<close> and \<open>sources\<close> of the
  response are \<open>text_of\<close> and \<open>sources_of\<close>. When \<open>prev[currentPageId]\<close> is a property
  of the prototype, \<open>currentPage.blocks\<close> is \<open>undefined\<close> and the array spread
  \<open>[...currentPage.blocks, ...]\<close> throws a TypeError: the update is not made, and the
  exception is the outcome of the handler.
\<close>

datatype 'a settled = Rejected string | Fulfilled 'a

record search_response =
  text_of :: string
  sources_of :: "source list"

definition handleAiSearch_begin :: "state \<Rightarrow> string option" where
  "handleAiSearch_begin s = (if \<not> truthy (currentPageId s) then None else currentPageId s)"

definition handleAiSearch_resume ::
  "string \<Rightarrow> string \<Rightarrow> search_response settled \<Rightarrow> int \<Rightarrow> int \<Rightarrow> state \<Rightarrow> state \<times> unit settled" where
  "handleAiSearch_resume cur prompt response t_result t_prompt s =
     (case response of
        Rejected err \<Rightarrow> (s, Rejected err)
      | Fulfilled r \<Rightarrow>
          let resultBlock =
                \<lparr>block_id = ''search-result-'' @ show_int t_result,
                 block_type = AI_SEARCH_RESULT, content = text_of r,
                 checked = None, src = None, language = None,
                 sources = Some (sources_of r)\<rparr>;
              promptBlock =
                \<lparr>block_id = ''search-prompt-'' @ show_int t_prompt,
                 block_type = QUOTE, content = ''> '' @ prompt,
                 checked = None, src = None, language = None, sources = None\<rparr>
          in (case get_property (pages s) cur of
                Undefined \<Rightarrow> (s, Fulfilled ())
              | Own currentPage \<Rightarrow>
                  (s\<lparr>pages :=
                       AList.update cur
                         (currentPage\<lparr>blocks := blocks currentPage @ [promptBlock, resultBlock]\<rparr>)
                         (pages s)\<rparr>,
                   Fulfilled ())
              | Inherited \<Rightarrow> (s, Rejected ''TypeError'')))"

text \<open>
  The whole handler: \<open>s_call\<close> is the state when it is called, \<open>s_settle\<close> the state
  when the search settles (other handlers may have run in between).
\<close>

definition handleAiSearch ::
  "string \<Rightarrow> search_response settled \<Rightarrow> int \<Rightarrow> int \<Rightarrow> state \<Rightarrow> state \<Rightarrow> state \<times> unit settled" where
  "handleAiSearch prompt response t_result t_prompt s_call s_settle =
     (case handleAiSearch_begin s_call of
        None \<Rightarrow> (s_settle, Fulfilled ())
      | Some cur \<Rightarrow> handleAiSearch_resume cur prompt response t_result t_prompt s_settle)"

section \<open>The two effects on \<open>localStorage\<close>\<close>

text \<open>
  \<open>localStorage\<close> is a map from keys to strings. \<open>getItem\<close> is the lookup (\<open>null\<close> is
  \<open>None\<close>) and \<open>removeItem\<close> never throws. \<open>setItem\<close> throws when the store refuses the
  write (the quota): \<open>accepts st k v\<close> says whether the store \<open>st\<close> takes the value \<open>v\<close>
  under the key \<open>k\<close>. \<open>JSON.parse\<close> and \<open>JSON.stringify\<close> are arguments: the parser is
  a partial map, \<open>None\<close> where it throws a SyntaxError, and what it returns is taken
  to be a \<open>Record<string, Page>\<close>, as the component does. \<open>pageTemplates\<close> (imported
  from \<open>./templates/pageTemplates\<close>) and the media query \<open>prefers-color-scheme: dark\<close>
  are arguments too. The class list of the document element is not part of the state.
\<close>

type_synonym storage = "string \<rightharpoonup> string"

definition setItem :: "(storage \<Rightarrow> string \<Rightarrow> string \<Rightarrow> bool) \<Rightarrow> string \<Rightarrow> string \<Rightarrow> storage \<Rightarrow> storage option" where
  "setItem accepts k v st = (if accepts st k v then Some (st(k \<mapsto> v)) else None)"

definition removeItem :: "string \<Rightarrow> storage \<Rightarrow> storage" where
  "removeItem k st = st(k := None)"

definition theme_name :: "Theme \<Rightarrow> string" where
  "theme_name th = (case th of light \<Rightarrow> ''light'' | dark \<Rightarrow> ''dark'')"

subsection \<open>Load from localStorage on initial render (lines 19 to 52)\<close>

definition load_theme :: "storage \<Rightarrow> bool \<Rightarrow> state \<Rightarrow> state" where
  "load_theme st prefersDark s =
     (let savedTheme = st ''editor-theme''
      in if savedTheme = Some ''light'' then s\<lparr>theme := light\<rparr>
         else if savedTheme = Some ''dark'' then s\<lparr>theme := dark\<rparr>
         else s\<lparr>theme := (if prefersDark then dark else light)\<rparr>)"

text \<open>
  The \<open>try\<close> block. The \<open>catch\<close> clause is reached from \<open>JSON.parse\<close> and from
  \<open>pageTemplates[0].blocks\<close> when the catalogue is empty (a TypeError); both throw
  before any state is set, and the clause calls \<open>handleAddPage()\<close>.
\<close>

definition load_pages ::
  "(string \<rightharpoonup> Page object) \<Rightarrow> PageTemplate list \<Rightarrow> int \<Rightarrow> int \<Rightarrow> int \<Rightarrow> storage \<Rightarrow> state \<Rightarrow> state" where
  "load_pages JSON_parse pageTemplates t_page t_b1 t_b2 st s =
     (let savedPages = st ''editor-pages'';
          savedCurrentPageId = st ''editor-currentPageId''
      in if truthy savedPages then
           (case JSON_parse (the savedPages) of
              None \<Rightarrow> handleAddPage None t_page t_b1 t_b2 s
            | Some parsedPages \<Rightarrow>
                let s1 = s\<lparr>pages := parsedPages\<rparr>
                in if truthy savedCurrentPageId
                      \<and> get_property parsedPages (the savedCurrentPageId) \<noteq> Undefined
                   then s1\<lparr>currentPageId := savedCurrentPageId\<rparr>
                   else (case object_keys parsedPages of
                           k # _ \<Rightarrow> s1\<lparr>currentPageId := Some k\<rparr>
                         | [] \<Rightarrow> s1))
         else
           (case pageTemplates of
              [] \<Rightarrow> handleAddPage None t_page t_b1 t_b2 s
            | tp # _ \<Rightarrow> handleAddPage (Some (template_blocks tp)) t_page t_b1 t_b2 s))"

definition load ::
  "(string \<rightharpoonup> Page object) \<Rightarrow> PageTemplate list \<Rightarrow> bool \<Rightarrow> int \<Rightarrow> int \<Rightarrow> int \<Rightarrow> storage \<Rightarrow> state \<Rightarrow> state" where
  "load JSON_parse pageTemplates prefersDark t_page t_b1 t_b2 st s =
     load_pages JSON_parse pageTemplates t_page t_b1 t_b2 st (load_theme st prefersDark s)"

subsection \<open>Save to localStorage (lines 54 to 76)\<close>

text \<open>
  The write of the theme is outside the \<open>try\<close> block: when it throws, the effect
  ends with the exception (\<open>Inl\<close>). Inside the block a write that throws ends the
  block; the \<open>catch\<close> clause logs the error and the effect returns.
\<close>

definition save_pages ::
  "(storage \<Rightarrow> string \<Rightarrow> string \<Rightarrow> bool) \<Rightarrow> (Page object \<Rightarrow> string) \<Rightarrow> state \<Rightarrow> storage \<Rightarrow> storage" where
  "save_pages accepts JSON_stringify s st =
     (case (if length (object_keys (pages s)) > 0
            then setItem accepts ''editor-pages'' (JSON_stringify (pages s)) st
            else Some (removeItem ''editor-pages'' st)) of
        None \<Rightarrow> st
      | Some st1 \<Rightarrow>
          (case (if truthy (currentPageId s)
                 then setItem accepts ''editor-currentPageId'' (the (currentPageId s)) st1
                 else Some (removeItem ''editor-currentPageId'' st1)) of
             None \<Rightarrow> st1
           | Some st2 \<Rightarrow> st2))"

definition save ::
  "(storage \<Rightarrow> string \<Rightarrow> string \<Rightarrow> bool) \<Rightarrow> (Page object \<Rightarrow> string) \<Rightarrow> state \<Rightarrow> storage \<Rightarrow> string + storage" where
  "save accepts JSON_stringify s st =
     (case setItem accepts ''editor-theme'' (theme_name (theme s)) st of
        None \<Rightarrow> Inl ''QuotaExceededError''
      | Some st0 \<Rightarrow> Inr (save_pages accepts JSON_stringify s st0))"

section \<open>Sequences of page operations\<close>

text \<open>
  The three operations on pages that the sidebar and the command palette call, each
  with the clock readings it may take, and the states that a sequence of them goes
  through.
\<close>

datatype page_op =
    CreatePage "ContentBlock list option" int int int
  | DeletePage string int int int
  | SwitchPage string

fun apply_op :: "page_op \<Rightarrow> state \<Rightarrow> state" where
  "apply_op (CreatePage blocks_arg t_page t_b1 t_b2) s = handleAddPage blocks_arg t_page t_b1 t_b2 s"
| "apply_op (DeletePage pageId t_page t_b1 t_b2) s = handleDeletePage pageId t_page t_b1 t_b2 s"
| "apply_op (SwitchPage pageId) s = handleSwitchPage pageId s"

text \<open>\<open>states_after s ops\<close>: the state after each operation of \<open>ops\<close>, in order.\<close>

fun states_after :: "state \<Rightarrow> page_op list \<Rightarrow> state list" where
  "states_after s [] = []"
| "states_after s (op # ops) = apply_op op s # states_after (apply_op op s) ops"

text \<open>The current page id is \<open>null\<close> or a key of \<open>pages\<close>.\<close>

definition current_resolves :: "state \<Rightarrow> bool" where
  "current_resolves s =
     (case currentPageId s of None \<Rightarrow> True | Some k \<Rightarrow> k \<in> set (map fst (pages s)))"

text \<open>
  \<open>switches_to_keys s ops\<close>: every \<open>SwitchPage\<close> of \<open>ops\<close> names a key that \<open>pages\<close>
  has when the operation is called.
\<close>

fun switches_to_keys :: "state \<Rightarrow> page_op list \<Rightarrow> bool" where
  "switches_to_keys s [] = True"
| "switches_to_keys s (op # ops) =
     ((case op of SwitchPage pageId \<Rightarrow> pageId \<in> set (map fst (pages s)) | _ \<Rightarrow> True)
      \<and> switches_to_keys (apply_op op s) ops)"

section \<open>The title rule in the words of the specification\<close>

text \<open>
  \<open>tags_removed str out\<close>: \<open>out\<close> is \<open>str\<close> with every markup tag taken out. A tag is a
  \<open><\<close> with the text up to and including the next \<open>>\<close>; a \<open><\<close> that no \<open>>\<close> follows
  is taken out with the rest of the text. Nothing about how the text is scanned is
  said here: the relation is compared with \<open>replace_tags\<close> below.
\<close>

inductive tags_removed :: "string \<Rightarrow> string \<Rightarrow> bool" where
  no_tag: "CHR ''<'' \<notin> set str \<Longrightarrow> tags_removed str str"
| closed_tag:
    "CHR ''<'' \<notin> set pre \<Longrightarrow> CHR ''>'' \<notin> set tg \<Longrightarrow> tags_removed rest out \<Longrightarrow>
     tags_removed (pre @ CHR ''<'' # tg @ CHR ''>'' # rest) (pre @ out)"
| open_tag:
    "CHR ''<'' \<notin> set pre \<Longrightarrow> CHR ''>'' \<notin> set tg \<Longrightarrow>
     tags_removed (pre @ CHR ''<'' # tg) pre"

code_pred tags_removed .

text \<open>
  \<open>trimmed_to str core\<close>: \<open>core\<close> is \<open>str\<close> without the white space at its two ends:
  \<open>str\<close> is a run of white space, then \<open>core\<close>, then a run of white space, and no
  white space begins or ends \<open>core\<close>.
\<close>

definition trimmed_to :: "string \<Rightarrow> string \<Rightarrow> bool" where
  "trimmed_to str core \<longleftrightarrow>
     (\<exists>lead trail.
        set lead \<subseteq> set white_space \<and> set trail \<subseteq> set white_space \<and>
        str = concat lead @ core @ concat trail) \<and>
     (\<forall>w \<in> set white_space. \<not> prefix w core \<and> \<not> suffix w core)"

section \<open>Example values\<close>



definition refuses_pages_write :: "storage \<Rightarrow> string \<Rightarrow> string \<Rightarrow> bool" where
  "refuses_pages_write st k v \<longleftrightarrow> k \<noteq> ''editor-pages''"

definition keys_in_a_row :: "Page object \<Rightarrow> string" where
  "keys_in_a_row ps = concat (map fst ps)"

definition example_blocks :: "ContentBlock list" where
  "example_blocks =
     [\<lparr>block_id = ''b1'', block_type = P, content = ''intro'',
       checked = None, src = None, language = None, sources = None\<rparr>,
      \<lparr>block_id = ''b2'', block_type = H1, content = ''Hello <b>World</b>'',
       checked = None, src = None, language = None, sources = None\<rparr>]"

definition example_page :: Page where
  "example_page =
     \<lparr>page_id = Some ''page-1'', title = ''Draft'',
      blocks = [\<lparr>block_id = ''b0'', block_type = H1, content = ''Draft'',
                 checked = None, src = None, language = None, sources = None\<rparr>]\<rparr>"

definition example_state :: state where
  "example_state =
     \<lparr>pages = [(''page-1'', example_page),
               (''page-2'', \<lparr>page_id = Some ''page-2'', title = ''Untitled'', blocks = []\<rparr>)],
      currentPageId = Some ''page-1'', theme = dark,
      isCommandPaletteOpen = False, isAiSearchOpen = False\<rparr>"

definition example_templates :: "PageTemplate list" where
  "example_templates =
     [\<lparr>template_id = ''welcome'', name = ''Welcome'', description = ''A first page'',
       template_blocks =
         [\<lparr>block_id = ''w1'', block_type = H1, content = ''Getting Started'',
           checked = None, src = None, language = None, sources = None\<rparr>]\<rparr>]"

definition example_response :: search_response where
  "example_response =
     \<lparr>text_of = ''X is Y.'',
      sources_of = [\<lparr>web = \<lparr>uri = ''http://a'', web_title = ''A''\<rparr>\<rparr>]\<rparr>"

text \<open>A parser that reads the text \<open>stored\<close> as the pages of \<open>example_state\<close>.\<close>

definition stored_pages :: "string \<rightharpoonup> Page object" where
  "stored_pages raw = (if raw = ''stored'' then Some (pages example_state) else None)"

section \<open>Properties of the page operations\<close>

subsection \<open>Keys of an object\<close>

lemma set_object_keys: "set (object_keys obj) = fst ` set obj"
  by (auto simp: object_keys_def Let_def)

lemma object_keys_Nil_iff: "object_keys obj = [] \<longleftrightarrow> obj = []"
proof -
  have "object_keys obj = [] \<longleftrightarrow> set (object_keys obj) = {}" by simp
  also have "\<dots> \<longleftrightarrow> obj = []" by (simp add: set_object_keys)
  finally show ?thesis .
qed

subsection \<open>The current page id after create, delete and switch\<close>

lemma current_resolves_handleAddPage:
  "current_resolves (handleAddPage blocks_arg t_page t_b1 t_b2 s)"
  by (simp add: current_resolves_def handleAddPage_def Let_def AList.dom_update)

lemma current_resolves_handleDeletePage:
  assumes "current_resolves s"
  shows "current_resolves (handleDeletePage pageId t_page t_b1 t_b2 s)"
proof (cases "currentPageId s = Some pageId")
  case True
  show ?thesis
  proof (cases "filter (\<lambda>k. k \<noteq> pageId) (object_keys (pages s))")
    case Nil
    with True show ?thesis
      by (simp add: handleDeletePage_def Let_def current_resolves_handleAddPage)
  next
    case (Cons k ks)
    then have "k \<in> set (filter (\<lambda>k. k \<noteq> pageId) (object_keys (pages s)))" by simp
    then have "k \<noteq> pageId" "k \<in> fst ` set (pages s)"
      by (simp_all add: set_object_keys)
    then have "k \<in> fst ` set (AList.delete pageId (pages s))"
      by (auto simp: AList.delete_eq)
    with True Cons show ?thesis
      by (simp add: handleDeletePage_def Let_def current_resolves_def)
  qed
next
  case False
  with assms show ?thesis
    by (auto simp: handleDeletePage_def Let_def current_resolves_def AList.delete_eq
        split: option.splits)
qed

lemma current_resolves_handleSwitchPage:
  "pageId \<in> set (map fst (pages s)) \<Longrightarrow> current_resolves (handleSwitchPage pageId s)"
  by (simp add: current_resolves_def handleSwitchPage_def)

lemma current_resolves_apply_op:
  assumes "current_resolves s"
    and "case op of SwitchPage pageId \<Rightarrow> pageId \<in> set (map fst (pages s)) | _ \<Rightarrow> True"
  shows "current_resolves (apply_op op s)"
  using assms
  by (cases op)
    (simp_all add: current_resolves_handleAddPage current_resolves_handleDeletePage
      current_resolves_handleSwitchPage)

text \<open>
  Claim C1 as stated fails: \<open>handleSwitchPage\<close> sets \<open>currentPageId\<close> to its argument
  with no look at \<open>pages\<close>. After a page \<open>page-1\<close> is created from the initial state,
  switching to \<open>page-404\<close> leaves a current page id that is not a key of \<open>pages\<close>.
\<close>

theorem switchPage_unknown_id_dangles:
  "current_resolves initial_state \<and>
   \<not> list_all current_resolves
       (states_after initial_state [CreatePage None 1 2 3, SwitchPage ''page-404''])"
  by code_simp

text \<open>
  Claim C1, amended: from a state whose \<open>currentPageId\<close> is \<open>null\<close> or a key of
  \<open>pages\<close>, along every sequence of \<open>createPage\<close>, \<open>deletePage\<close> and \<open>switchPage\<close>
  operations in which each \<open>switchPage\<close> is given an id that is a key of \<open>pages\<close> at
  the time of the call, \<open>currentPageId\<close> is \<open>null\<close> or a key of \<open>pages\<close> after each
  single operation.
\<close>

theorem current_resolves_after_each_op:
  "current_resolves s \<Longrightarrow> switches_to_keys s ops \<Longrightarrow>
   list_all current_resolves (states_after s ops)"
proof (induction ops arbitrary: s)
  case Nil
  then show ?case by simp
next
  case (Cons op ops)
  from Cons.prems have "current_resolves (apply_op op s)"
    by (intro current_resolves_apply_op) simp_all
  moreover from Cons.prems have "switches_to_keys (apply_op op s) ops" by simp
  ultimately show ?case using Cons.IH by simp
qed

theorem current_resolves_after_each_op_witness:
  "current_resolves initial_state \<and>
   switches_to_keys initial_state
     [CreatePage None 1 2 3, SwitchPage ''page-1'', DeletePage ''page-1'' 4 5 6] \<and>
   list_all current_resolves
     (states_after initial_state
        [CreatePage None 1 2 3, SwitchPage ''page-1'', DeletePage ''page-1'' 4 5 6])"
proof -
  have h1: "current_resolves initial_state" by code_simp
  have h2: "switches_to_keys initial_state
     [CreatePage None 1 2 3, SwitchPage ''page-1'', DeletePage ''page-1'' 4 5 6]"
    by code_simp
  from current_resolves_after_each_op [OF h1 h2] h1 h2 show ?thesis by simp
qed

subsection \<open>What the pattern removes, and that \<open>trim\<close> has fuel enough\<close>

text \<open>
  No \<open><\<close> is left; a text with no \<open><\<close> is kept as it is; a tag \<open><...>\<close> is removed
  whole; and a \<open><\<close> with no \<open>>\<close> after it is removed with the rest of the text (the
  \<open>>\<close> of the pattern is optional).
\<close>

lemma strip_from_no_lt: "CHR ''<'' \<notin> set (strip_from inside str)"
  by (induction inside str rule: strip_from.induct) auto

lemma replace_tags_no_lt: "CHR ''<'' \<notin> set (replace_tags str)"
  by (simp add: replace_tags_def strip_from_no_lt)

lemma replace_tags_plain: "CHR ''<'' \<notin> set str \<Longrightarrow> replace_tags str = str"
  unfolding replace_tags_def by (induction str) auto

lemma strip_from_inside_open: "CHR ''>'' \<notin> set tg \<Longrightarrow> strip_from True tg = []"
  by (induction tg) auto

lemma strip_from_inside_closed:
  "CHR ''>'' \<notin> set tg \<Longrightarrow> strip_from True (tg @ CHR ''>'' # rest) = strip_from False rest"
  by (induction tg) auto

lemma strip_from_outside_append:
  "CHR ''<'' \<notin> set pre \<Longrightarrow>
   strip_from False (pre @ CHR ''<'' # rest) = pre @ strip_from True rest"
  by (induction pre) auto

lemma replace_tags_closed_tag:
  "CHR ''<'' \<notin> set pre \<Longrightarrow> CHR ''>'' \<notin> set tg \<Longrightarrow>
   replace_tags (pre @ CHR ''<'' # tg @ CHR ''>'' # rest) = pre @ replace_tags rest"
  by (simp add: replace_tags_def strip_from_outside_append strip_from_inside_closed)

lemma replace_tags_open_tag:
  "CHR ''<'' \<notin> set pre \<Longrightarrow> CHR ''>'' \<notin> set tg \<Longrightarrow>
   replace_tags (pre @ CHR ''<'' # tg) = pre"
  by (simp add: replace_tags_def strip_from_outside_append strip_from_inside_open)




subsection \<open>The pattern and \<open>trim\<close> against the words of the specification\<close>

lemma tags_removed_replace_tags:
  "tags_removed str out \<Longrightarrow> out = replace_tags str"
  by (induction rule: tags_removed.induct)
    (simp_all add: replace_tags_plain replace_tags_closed_tag replace_tags_open_tag)








text \<open>
  Each of the two relations gives a text one result only. For \<open>trimmed_to\<close> this rests
  on the encodings of the white space: none is the beginning or the end of another,
  and no byte after the first of an encoding is the first byte of one.
\<close>

lemma tags_removed_unique: "tags_removed str a \<Longrightarrow> tags_removed str b \<Longrightarrow> a = b"
  by (auto dest: tags_removed_replace_tags)

lemma white_space_prefix_free:
  "list_all (\<lambda>w. list_all (\<lambda>w'. prefix w w' \<longrightarrow> w = w') white_space) white_space"
  by code_simp

lemma white_space_suffix_free:
  "list_all (\<lambda>w. list_all (\<lambda>w'. suffix w w' \<longrightarrow> w = w') white_space) white_space"
  by code_simp

lemma white_space_heads_apart:
  "list_all (\<lambda>w. w \<noteq> [] \<and> list_all (\<lambda>c. c \<notin> set (map hd white_space)) (tl w)) white_space"
  by code_simp

lemma run_split_unique:
  assumes pf: "\<And>w w'. w \<in> W \<Longrightarrow> w' \<in> W \<Longrightarrow> prefix w w' \<Longrightarrow> w = w'"
    and "set l1 \<subseteq> W" and "set l2 \<subseteq> W"
    and "concat l1 @ r1 = concat l2 @ r2"
    and "\<And>w. w \<in> W \<Longrightarrow> \<not> prefix w r1" and "\<And>w. w \<in> W \<Longrightarrow> \<not> prefix w r2"
  shows "r1 = r2"
  using assms(2-4)
proof (induction l1 arbitrary: l2)
  case Nil
  show ?case
  proof (cases l2)
    case Nil
    with Nil.prems show ?thesis by simp
  next
    case (Cons w l2')
    with Nil.prems have "w \<in> W" and "prefix w r1" by (auto simp: prefix_def)
    with assms(5) show ?thesis by blast
  qed
next
  case (Cons w1 l1)
  show ?case
  proof (cases l2)
    case Nil
    with Cons.prems have "w1 \<in> W" and "prefix w1 r2" by (auto simp: prefix_def)
    with assms(6) show ?thesis by blast
  next
    case (Cons w2 l2')
    with Cons.prems have w: "w1 \<in> W" "w2 \<in> W"
      and eq: "w1 @ (concat l1 @ r1) = w2 @ (concat l2' @ r2)"
      by simp_all
    from eq have "prefix w1 w2 \<or> prefix w2 w1"
      by (metis prefixI prefix_same_cases)
    with w pf have "w1 = w2" by blast
    with eq have "concat l1 @ r1 = concat l2' @ r2" by simp
    moreover from Cons.prems Cons have "set l1 \<subseteq> W" "set l2' \<subseteq> W" by simp_all
    ultimately show ?thesis by (intro Cons.IH)
  qed
qed

lemma hd_white_run:
  assumes "set t \<subseteq> set white_space" and "concat t \<noteq> []"
  shows "hd (concat t) \<in> set (map hd white_space)"
  using assms
proof (induction t)
  case Nil
  then show ?case by simp
next
  case (Cons w t)
  then have "w \<in> set white_space" by simp
  with white_space_heads_apart have "w \<noteq> []" by (auto simp: list_all_iff)
  with \<open>w \<in> set white_space\<close> show ?case by simp
qed

lemma no_prefix_before_run:
  assumes "c \<noteq> []" and np: "\<And>w. w \<in> set white_space \<Longrightarrow> \<not> prefix w c"
    and t: "set t \<subseteq> set white_space" and w: "w \<in> set white_space"
  shows "\<not> prefix w (c @ concat t)"
proof
  assume "prefix w (c @ concat t)"
  with np [OF w] obtain us where us: "w = c @ us" and pre: "prefix us (concat t)"
    by (auto simp: prefix_append)
  from us np [OF w] have "us \<noteq> []" by auto
  from pre obtain zs where ct: "concat t = us @ zs" by (auto simp: prefix_def)
  have "concat t \<noteq> []" and "hd us = hd (concat t)"
    unfolding ct using \<open>us \<noteq> []\<close> by simp_all
  with hd_white_run [OF t] have "hd us \<in> set (map hd white_space)" by simp
  moreover from us \<open>c \<noteq> []\<close> \<open>us \<noteq> []\<close> have "hd us \<in> set (tl w)"
    by (cases c) auto
  ultimately show False
    using white_space_heads_apart w by (auto simp: list_all_iff)
qed

lemma trimmed_to_unique:
  assumes "trimmed_to str a" and "trimmed_to str b"
  shows "a = b"
proof -
  let ?W = "set white_space"
  from assms(1) obtain la ta where a:
    "set la \<subseteq> ?W" "set ta \<subseteq> ?W" "str = concat la @ a @ concat ta"
    and na: "\<And>w. w \<in> ?W \<Longrightarrow> \<not> prefix w a" "\<And>w. w \<in> ?W \<Longrightarrow> \<not> suffix w a"
    unfolding trimmed_to_def by blast
  from assms(2) obtain lb tb where b:
    "set lb \<subseteq> ?W" "set tb \<subseteq> ?W" "str = concat lb @ b @ concat tb"
    and nb: "\<And>w. w \<in> ?W \<Longrightarrow> \<not> prefix w b" "\<And>w. w \<in> ?W \<Longrightarrow> \<not> suffix w b"
    unfolding trimmed_to_def by blast
  have pf: "w = w'" if "w \<in> ?W" "w' \<in> ?W" "prefix w w'" for w w'
    using white_space_prefix_free that by (auto simp: list_all_iff)
  have sf: "w = w'" if "w \<in> ?W" "w' \<in> ?W" "suffix w w'" for w w'
    using white_space_suffix_free that by (auto simp: list_all_iff)
  have ne: "w \<noteq> []" if "w \<in> ?W" for w
    using white_space_heads_apart that by (auto simp: list_all_iff)
  define la' where "la' = (if a = [] then la @ ta else la)"
  define ra where "ra = (if a = [] then [] else a @ concat ta)"
  define lb' where "lb' = (if b = [] then lb @ tb else lb)"
  define rb where "rb = (if b = [] then [] else b @ concat tb)"
  from a(3) b(3) have "concat la @ a @ concat ta = concat lb @ b @ concat tb" by simp
  then have eq: "concat la' @ ra = concat lb' @ rb"
    by (auto simp: la'_def ra_def lb'_def rb_def)
  have sub: "set la' \<subseteq> ?W" "set lb' \<subseteq> ?W"
    using a(1,2) b(1,2) by (simp_all add: la'_def lb'_def)
  have npa: "\<not> prefix w ra" if "w \<in> ?W" for w
    using that ne [OF that] no_prefix_before_run [OF _ na(1) a(2) that]
    by (auto simp: ra_def)
  have npb: "\<not> prefix w rb" if "w \<in> ?W" for w
    using that ne [OF that] no_prefix_before_run [OF _ nb(1) b(2) that]
    by (auto simp: rb_def)
  have r: "ra = rb"
    by (rule run_split_unique [where W = ?W, OF pf sub eq npa npb])
  show ?thesis
  proof (cases "a = [] \<or> b = []")
    case True
    with r show ?thesis by (auto simp: ra_def rb_def split: if_splits)
  next
    case False
    with r have "a @ concat ta = b @ concat tb" by (simp add: ra_def rb_def)
    then have "rev (concat ta) @ rev a = rev (concat tb) @ rev b"
      by (metis rev_append)
    then have eq': "concat (map rev (rev ta)) @ rev a = concat (map rev (rev tb)) @ rev b"
      by (simp add: rev_concat)
    have sub': "set (map rev (rev ta)) \<subseteq> rev ` ?W" "set (map rev (rev tb)) \<subseteq> rev ` ?W"
      using a(2) b(2) by auto
    have np': "\<not> prefix w (rev a)" "\<not> prefix w (rev b)" if "w \<in> rev ` ?W" for w
      using that na(2) nb(2) by (auto simp: suffix_to_prefix)
    have pf': "w = w'" if "w \<in> rev ` ?W" "w' \<in> rev ` ?W" "prefix w w'" for w w'
      using that sf by (auto simp: suffix_to_prefix)
    have "rev a = rev b"
      by (rule run_split_unique [where W = "rev ` ?W", OF pf' sub' eq' np'])
    then show ?thesis by simp
  qed
qed

subsection \<open>updateBlocksForCurrentPage\<close>

lemma get_property_Own: "map_of obj k = Some v \<Longrightarrow> get_property obj k = Own v"
  by (simp add: get_property_def)



text \<open>
  Claim C10: \<open>updateBlocksForCurrentPage\<close> changes nothing of the state but \<open>pages\<close>
  (the theme and \<open>currentPageId\<close> are as before); what \<open>pages\<close> gives under a key other
  than \<open>currentPageId\<close> is as it was; and every page of \<open>pages\<close>, the target too, is
  still there under its key with the \<open>id\<close> field it had.
\<close>

theorem replaceBlocks_frame:
  "updateBlocksForCurrentPage newBlocks s
     = s\<lparr>pages := pages (updateBlocksForCurrentPage newBlocks s)\<rparr>
   \<and> (currentPageId s \<noteq> Some k \<longrightarrow>
        get_property (pages (updateBlocksForCurrentPage newBlocks s)) k
          = get_property (pages s) k)
   \<and> (map_of (pages s) k = Some page \<longrightarrow>
        (\<exists>page'. map_of (pages (updateBlocksForCurrentPage newBlocks s)) k = Some page' \<and>
                 page_id page' = page_id page))"
  by (auto simp: updateBlocksForCurrentPage_def truthy_def Let_def AList.update_conv'
      get_property_def split: option.splits property.splits if_splits)

text \<open>
  With \<open>page-1\<close> current, \<open>page-2\<close> is left as it was, and \<open>page-1\<close> changes and keeps
  its \<open>id\<close>. With \<open>constructor\<close> as the current page id, which is no key of \<open>pages\<close>,
  \<open>page-1\<close> is left as it was.
\<close>

theorem replaceBlocks_frame_witness:
  "currentPageId example_state \<noteq> Some ''page-2'' \<and>
   get_property (pages (updateBlocksForCurrentPage example_blocks example_state)) ''page-2''
     = Own \<lparr>page_id = Some ''page-2'', title = ''Untitled'', blocks = []\<rparr> \<and>
   map_of (pages example_state) ''page-1'' = Some example_page \<and>
   (\<exists>page'. map_of (pages (updateBlocksForCurrentPage example_blocks example_state)) ''page-1''
              = Some page' \<and> page_id page' = Some ''page-1'' \<and> page' \<noteq> example_page) \<and>
   currentPageId (handleSwitchPage ''constructor'' example_state) \<noteq> Some ''page-1'' \<and>
   get_property (pages (updateBlocksForCurrentPage example_blocks
                          (handleSwitchPage ''constructor'' example_state))) ''page-1''
     = Own example_page"
proof -
  have h: "currentPageId example_state \<noteq> Some ''page-2''" by (simp add: example_state_def)
  have p: "get_property (pages example_state) ''page-2''
           = Own \<lparr>page_id = Some ''page-2'', title = ''Untitled'', blocks = []\<rparr>"
    by (simp add: example_state_def get_property_def)
  have m: "map_of (pages example_state) ''page-1'' = Some example_page"
    by (simp add: example_state_def)
  have i: "page_id example_page = Some ''page-1''" by (simp add: example_page_def)
  have q: "map_of (pages (updateBlocksForCurrentPage example_blocks example_state)) ''page-1''
     \<noteq> Some example_page"
    by code_simp
  have h': "currentPageId (handleSwitchPage ''constructor'' example_state) \<noteq> Some ''page-1''"
    by (simp add: handleSwitchPage_def)
  have p': "get_property (pages (handleSwitchPage ''constructor'' example_state)) ''page-1''
           = Own example_page"
    by (simp add: handleSwitchPage_def example_state_def get_property_def)
  from replaceBlocks_frame [of example_blocks example_state "''page-2''"]
    replaceBlocks_frame [of example_blocks example_state "''page-1''" example_page]
    replaceBlocks_frame [of example_blocks "handleSwitchPage ''constructor'' example_state"
      "''page-1''"]
    h p m i q h' p'
  show ?thesis by auto
qed

subsection \<open>handleAiSearch\<close>

text \<open>
  Claim C3: when the search is fulfilled with a text and a citation sequence, for the
  page that was current when the handler was called and that has \<open>N\<close> blocks when the
  search settles, the handler leaves under the same key a page with \<open>N + 2\<close> blocks:
  the first \<open>N\<close> are the blocks it had, in order; block \<open>N\<close> is a QUOTE block with
  content \<open>> \<close> followed by the prompt; block \<open>N + 1\<close> is an AI_SEARCH_RESULT block
  with the text as content and the citation sequence as \<open>sources\<close>.
\<close>

theorem appendAiResult_appends_two_blocks:
  assumes "currentPageId s_call = Some cur" and "cur \<noteq> []"
    and "map_of (pages s_settle) cur = Some page"
  shows "\<exists>page'.
     map_of (pages (fst (handleAiSearch prompt
        (Fulfilled \<lparr>text_of = resultText, sources_of = citations\<rparr>)
        t_result t_prompt s_call s_settle))) cur = Some page' \<and>
     length (blocks page') = length (blocks page) + 2 \<and>
     take (length (blocks page)) (blocks page') = blocks page \<and>
     block_type (blocks page' ! length (blocks page)) = QUOTE \<and>
     content (blocks page' ! length (blocks page)) = ''> '' @ prompt \<and>
     block_type (blocks page' ! (length (blocks page) + 1)) = AI_SEARCH_RESULT \<and>
     content (blocks page' ! (length (blocks page) + 1)) = resultText \<and>
     sources (blocks page' ! (length (blocks page) + 1)) = Some citations"
  using assms
  by (simp add: handleAiSearch_def handleAiSearch_begin_def handleAiSearch_resume_def
      truthy_def Let_def get_property_Own AList.update_conv' nth_append)

theorem appendAiResult_appends_two_blocks_witness:
  "currentPageId example_state = Some ''page-1'' \<and> ''page-1'' \<noteq> [] \<and>
   map_of (pages example_state) ''page-1'' = Some example_page \<and>
   (\<exists>page'.
     map_of (pages (fst (handleAiSearch ''what is X?''
        (Fulfilled \<lparr>text_of = ''X is Y.'',
                    sources_of = [\<lparr>web = \<lparr>uri = ''http://a'', web_title = ''A''\<rparr>\<rparr>]\<rparr>)
        7 8 example_state example_state))) ''page-1'' = Some page' \<and>
     length (blocks page') = length (blocks example_page) + 2 \<and>
     take (length (blocks example_page)) (blocks page') = blocks example_page \<and>
     block_type (blocks page' ! length (blocks example_page)) = QUOTE \<and>
     content (blocks page' ! length (blocks example_page)) = ''> '' @ ''what is X?'' \<and>
     block_type (blocks page' ! (length (blocks example_page) + 1)) = AI_SEARCH_RESULT \<and>
     content (blocks page' ! (length (blocks example_page) + 1)) = ''X is Y.'' \<and>
     sources (blocks page' ! (length (blocks example_page) + 1))
       = Some [\<lparr>web = \<lparr>uri = ''http://a'', web_title = ''A''\<rparr>\<rparr>])"
proof -
  have h1: "currentPageId example_state = Some ''page-1''" by (simp add: example_state_def)
  have h2: "''page-1'' \<noteq> []" by simp
  have h3: "map_of (pages example_state) ''page-1'' = Some example_page"
    by (simp add: example_state_def)
  from appendAiResult_appends_two_blocks [OF h1 h2 h3] h1 h2 h3 show ?thesis by blast
qed

text \<open>
  Claim C4: when the search is rejected, the handler leaves the state as it finds it
  (no block is appended, no page is changed, \<open>currentPageId\<close> is as before), and the
  continuation ends with the rejection. When no other handler runs while the search is
  in flight, \<open>s\<close> is the state before the call.
\<close>

theorem search_rejected_state_unchanged:
  "handleAiSearch_resume cur prompt (Rejected err) t_result t_prompt s = (s, Rejected err) \<and>
   fst (handleAiSearch prompt (Rejected err) t_result t_prompt s_call s) = s"
  by (simp add: handleAiSearch_def handleAiSearch_resume_def split: option.splits)

text \<open>
  When the page id kept at the call reads \<open>undefined\<close> from \<open>pages\<close> at the time the
  search is fulfilled, the handler leaves the state as it finds it and its promise is
  fulfilled.
\<close>

lemma append_to_undefined_is_noop:
  assumes "currentPageId s_call = Some cur" and "cur \<noteq> []"
    and "get_property (pages s_settle) cur = Undefined"
  shows "handleAiSearch prompt (Fulfilled response) t_result t_prompt s_call s_settle
         = (s_settle, Fulfilled ())"
  using assms
  by (simp add: handleAiSearch_def handleAiSearch_begin_def handleAiSearch_resume_def
      truthy_def Let_def)

text \<open>
  Claim C8 does not hold of \<open>handleAiSearch\<close> for every page id that is not a key of
  \<open>pages\<close>: the guard \<open>if (!currentPage) return prev\<close> tests \<open>prev[currentPageId]\<close>,
  which is truthy for a name that objects inherit. With an \<open>editor-currentPageId\<close>
  entry \<open>constructor\<close> in the store the load effect makes \<open>constructor\<close> the current
  page id, and so does \<open>handleSwitchPage\<close>; \<open>constructor\<close> is not a key of \<open>pages\<close>, and
  when the search is fulfilled the update throws a TypeError instead of returning
  \<open>prev\<close>.
\<close>

theorem append_for_inherited_name_throws:
  "currentPageId (load stored_pages [] False 1 2 3
                    [''editor-pages'' \<mapsto> ''stored'', ''editor-currentPageId'' \<mapsto> ''constructor'']
                    initial_state) = Some ''constructor'' \<and>
   map_of (pages (handleSwitchPage ''constructor'' example_state)) ''constructor'' = None \<and>
   handleAiSearch ''what is X?'' (Fulfilled example_response) 7 8
     (handleSwitchPage ''constructor'' example_state)
     (handleSwitchPage ''constructor'' example_state)
   = (handleSwitchPage ''constructor'' example_state, Rejected ''TypeError'')"
  by code_simp

subsection \<open>Deleting the only page\<close>

lemma delete_only_key: "fst ` set al \<subseteq> {k} \<Longrightarrow> AList.delete k al = []"
  by (induction al) auto

text \<open>
  Claim C5: when \<open>pageId\<close> is the only key of \<open>pages\<close> and is the current page id,
  \<open>handleDeletePage pageId\<close> leaves exactly one page, the default page that
  \<open>handleAddPage()\<close> creates (title \<open>Untitled\<close>, the two default blocks, the id taken
  from the clock), and \<open>currentPageId\<close> is the id of that page.
\<close>

theorem delete_last_page_seeds_default:
  assumes "fst ` set (pages s) = {pageId}" and "currentPageId s = Some pageId"
  shows "handleDeletePage pageId t_page t_b1 t_b2 s =
         s\<lparr>pages := [(''page-'' @ show_int t_page,
                       \<lparr>page_id = Some (''page-'' @ show_int t_page), title = ''Untitled'',
                        blocks = defaultBlocks t_b1 t_b2\<rparr>)],
           currentPageId := Some (''page-'' @ show_int t_page)\<rparr>"
proof -
  have "filter (\<lambda>k. k \<noteq> pageId) (object_keys (pages s)) = []"
    using assms(1) by (auto simp: filter_empty_conv set_object_keys)
  moreover have "AList.delete pageId (pages s) = []"
    using assms(1) by (simp add: delete_only_key)
  ultimately show ?thesis
    using assms(2) by (simp add: handleDeletePage_def handleAddPage_def newPage_def Let_def)
qed

theorem delete_last_page_seeds_default_witness:
  "fst ` set (pages (handleAddPage None 1 2 3 initial_state)) = {''page-1''} \<and>
   currentPageId (handleAddPage None 1 2 3 initial_state) = Some ''page-1'' \<and>
   handleDeletePage ''page-1'' 4 5 6 (handleAddPage None 1 2 3 initial_state) =
     \<lparr>pages = [(''page-4'',
                \<lparr>page_id = Some ''page-4'', title = ''Untitled'',
                 blocks =
                   [\<lparr>block_id = ''5-1'', block_type = H1, content = ''Untitled'',
                     checked = None, src = None, language = None, sources = None\<rparr>,
                    \<lparr>block_id = ''6-2'', block_type = P, content = [],
                     checked = None, src = None, language = None, sources = None\<rparr>]\<rparr>)],
      currentPageId = Some ''page-4'', theme = light,
      isCommandPaletteOpen = False, isAiSearchOpen = False\<rparr>"
proof -
  have n1: "show_int 1 = ''1''" and n4: "show_int 4 = ''4''"
    and n5: "show_int 5 = ''5''" and n6: "show_int 6 = ''6''" by code_simp+
  have h1: "fst ` set (pages (handleAddPage None 1 2 3 initial_state)) = {''page-1''}"
    by (simp add: handleAddPage_def newPage_def initial_state_def Let_def n1)
  have h2: "currentPageId (handleAddPage None 1 2 3 initial_state) = Some ''page-1''"
    by (simp add: handleAddPage_def newPage_def initial_state_def Let_def n1)
  from delete_last_page_seeds_default [OF h1 h2, of 4 5 6] h1 h2 show ?thesis
    by (simp add: handleAddPage_def newPage_def initial_state_def Let_def defaultBlocks_def
        n1 n4 n5 n6)
qed

subsection \<open>The title of a page created from blocks\<close>

lemma newPage_title:
  "title (newPage (Some bs) t_page t_b1 t_b2) =
     (case find (\<lambda>b. block_type b = H1) bs of
        None \<Rightarrow> ''Untitled'' | Some h1Block \<Rightarrow> content h1Block)"
  by (simp add: newPage_def Let_def split: option.splits)

text \<open>
  Claim C6 does not hold of \<open>handleAddPage\<close>: the title of the new page is the content
  of the first H1 block as it is, with its tags and white space. Created from blocks
  whose heading is \<open>Hello <b>World</b>\<close>, the page has the title
  \<open>Hello <b>World</b>\<close>; \<open>updateBlocksForCurrentPage\<close> with the same blocks gives the
  same page the title \<open>Hello World\<close>. Created from a heading with empty content, the
  page has the empty title, not \<open>Untitled\<close>.
\<close>

theorem createPage_title_is_raw_heading:
  "map_of (pages (handleAddPage (Some example_blocks) 1 2 3 initial_state)) ''page-1'' =
     Some \<lparr>page_id = Some ''page-1'', title = ''Hello <b>World</b>'', blocks = example_blocks\<rparr> \<and>
   map_of (pages (updateBlocksForCurrentPage example_blocks
                    (handleAddPage (Some example_blocks) 1 2 3 initial_state))) ''page-1'' =
     Some \<lparr>page_id = Some ''page-1'', title = ''Hello World'', blocks = example_blocks\<rparr> \<and>
   title (newPage (Some [\<lparr>block_id = ''b1'', block_type = H1, content = [],
                          checked = None, src = None, language = None, sources = None\<rparr>])
            1 2 3) = []"
  by code_simp

section \<open>Properties of the two effects\<close>

subsection \<open>Load\<close>

lemma load_theme_pages [simp]:
  "pages (load_theme st prefersDark s) = pages s"
  "currentPageId (load_theme st prefersDark s) = currentPageId s"
  by (simp_all add: load_theme_def Let_def)

lemma load_decode_failure:
  assumes "st ''editor-pages'' = Some raw" and "raw \<noteq> []" and "JSON_parse raw = None"
  shows "load JSON_parse pageTemplates prefersDark t_page t_b1 t_b2 st s =
         handleAddPage None t_page t_b1 t_b2 (load_theme st prefersDark s)"
  using assms by (simp add: load_def load_pages_def truthy_def Let_def)

lemma load_no_entry:
  assumes "\<not> truthy (st ''editor-pages'')"
  shows "load JSON_parse pageTemplates prefersDark t_page t_b1 t_b2 st s =
         handleAddPage (case pageTemplates of [] \<Rightarrow> None | tp # _ \<Rightarrow> Some (template_blocks tp))
           t_page t_b1 t_b2 (load_theme st prefersDark s)"
  using assms by (simp add: load_def load_pages_def Let_def split: list.splits)

text \<open>
  A page created from a block sequence is the page created with no argument only when
  the sequence is the default one, clock stamps included.
\<close>

lemma newPage_default_blocks:
  "newPage (Some (defaultBlocks t_b1 t_b2)) t_page t_b1 t_b2 = newPage None t_page t_b1 t_b2"
  by (simp add: newPage_def defaultBlocks_def Let_def)

lemma handleAddPage_blocks_vs_default:
  "handleAddPage (Some bs) t_page t_b1 t_b2 s = handleAddPage None t_page t_b1 t_b2 s
   \<longleftrightarrow> bs = defaultBlocks t_b1 t_b2"
proof
  assume eq: "handleAddPage (Some bs) t_page t_b1 t_b2 s = handleAddPage None t_page t_b1 t_b2 s"
  then have "pages (handleAddPage (Some bs) t_page t_b1 t_b2 s)
      = pages (handleAddPage None t_page t_b1 t_b2 s)" by simp
  then have "newPage (Some bs) t_page t_b1 t_b2 = newPage None t_page t_b1 t_b2"
    by (simp add: handleAddPage_def Let_def) (rule AList.update_eqD)
  then have "blocks (newPage (Some bs) t_page t_b1 t_b2) = blocks (newPage None t_page t_b1 t_b2)"
    by simp
  then show "bs = defaultBlocks t_b1 t_b2"
    by (simp add: newPage_def Let_def split: option.splits)
next
  assume "bs = defaultBlocks t_b1 t_b2"
  then show "handleAddPage (Some bs) t_page t_b1 t_b2 s = handleAddPage None t_page t_b1 t_b2 s"
    by (simp add: handleAddPage_def newPage_default_blocks)
qed

text \<open>
  Claim C7 as stated fails: with no \<open>editor-pages\<close> entry the effect calls
  \<open>handleAddPage(pageTemplates[0].blocks)\<close>, and in the \<open>catch\<close> clause it calls
  \<open>handleAddPage()\<close>. With a catalogue whose first template is a single heading
  \<open>Getting Started\<close>, and the same clock readings, an entry that does not parse and a
  missing entry give two different states.
\<close>

theorem load_decode_failure_differs_from_no_entry:
  "load Map.empty example_templates False 1 2 3 [''editor-pages'' \<mapsto> ''{not json''] initial_state
   \<noteq> load Map.empty example_templates False 1 2 3 Map.empty initial_state"
  by code_simp

text \<open>
  Claim C7, amended: from the initial state, load seeds exactly one page and makes it
  current both when the \<open>editor-pages\<close> entry fails to parse and when there is no such
  entry. After a parse failure the page is the default page (title \<open>Untitled\<close>, the two
  default blocks). With no entry, the blocks of the page are those of the first
  template of the catalogue, or the two default blocks when the catalogue is empty.
  The two runs of the effect have their own clock readings.
\<close>

theorem load_seeds_one_page:
  assumes "st_bad ''editor-pages'' = Some raw" and "raw \<noteq> []" and "JSON_parse raw = None"
    and "\<not> truthy (st_none ''editor-pages'')"
  shows "load JSON_parse pageTemplates prefersDark t_page t_b1 t_b2 st_bad initial_state =
           (load_theme st_bad prefersDark initial_state)
             \<lparr>pages := [(''page-'' @ show_int t_page,
                         \<lparr>page_id = Some (''page-'' @ show_int t_page), title = ''Untitled'',
                          blocks = defaultBlocks t_b1 t_b2\<rparr>)],
              currentPageId := Some (''page-'' @ show_int t_page)\<rparr>
       \<and> (\<exists>page.
            load JSON_parse pageTemplates prefersDark u_page u_b1 u_b2 st_none initial_state =
              (load_theme st_none prefersDark initial_state)
                \<lparr>pages := [(''page-'' @ show_int u_page, page)],
                 currentPageId := Some (''page-'' @ show_int u_page)\<rparr> \<and>
            page_id page = Some (''page-'' @ show_int u_page) \<and>
            blocks page = (case pageTemplates of
                             [] \<Rightarrow> defaultBlocks u_b1 u_b2
                           | tp # _ \<Rightarrow> template_blocks tp))"
proof -
  have p: "pages initial_state = []"
    by (simp add: initial_state_def)
  have one: "load JSON_parse pageTemplates prefersDark t_page t_b1 t_b2 st_bad initial_state =
           (load_theme st_bad prefersDark initial_state)
             \<lparr>pages := [(''page-'' @ show_int t_page,
                         \<lparr>page_id = Some (''page-'' @ show_int t_page), title = ''Untitled'',
                          blocks = defaultBlocks t_b1 t_b2\<rparr>)],
              currentPageId := Some (''page-'' @ show_int t_page)\<rparr>"
    using assms(1-3)
    by (simp add: load_decode_failure handleAddPage_def newPage_def Let_def p)
  define arg where
    "arg = (case pageTemplates of [] \<Rightarrow> None | tp # _ \<Rightarrow> Some (template_blocks tp))"
  define page where "page = newPage arg u_page u_b1 u_b2"
  have "load JSON_parse pageTemplates prefersDark u_page u_b1 u_b2 st_none initial_state =
              (load_theme st_none prefersDark initial_state)
                \<lparr>pages := [(''page-'' @ show_int u_page, page)],
                 currentPageId := Some (''page-'' @ show_int u_page)\<rparr>"
    using assms(4) by (simp add: load_no_entry handleAddPage_def Let_def p page_def arg_def)
  moreover have "page_id page = Some (''page-'' @ show_int u_page)"
    by (simp add: page_def newPage_def Let_def split: option.splits)
  moreover have "blocks page = (case pageTemplates of
                             [] \<Rightarrow> defaultBlocks u_b1 u_b2
                           | tp # _ \<Rightarrow> template_blocks tp)"
    by (simp add: page_def arg_def newPage_def Let_def split: option.splits list.splits)
  ultimately show ?thesis using one by blast
qed

text \<open>
  A store whose \<open>editor-pages\<close> entry does not parse, read at the clock readings 1, 2
  and 3, and an empty store, read at 7, 8 and 9, with the example catalogue.
\<close>

theorem load_seeds_one_page_witness:
  "[''editor-pages'' \<mapsto> ''{not json''] ''editor-pages'' = Some ''{not json'' \<and>
   ''{not json'' \<noteq> [] \<and>
   (Map.empty :: string \<rightharpoonup> Page object) ''{not json'' = None \<and>
   \<not> truthy ((Map.empty :: storage) ''editor-pages'') \<and>
   load Map.empty example_templates False 1 2 3 [''editor-pages'' \<mapsto> ''{not json''] initial_state =
     \<lparr>pages = [(''page-1'',
                \<lparr>page_id = Some ''page-1'', title = ''Untitled'',
                 blocks =
                   [\<lparr>block_id = ''2-1'', block_type = H1, content = ''Untitled'',
                     checked = None, src = None, language = None, sources = None\<rparr>,
                    \<lparr>block_id = ''3-2'', block_type = P, content = [],
                     checked = None, src = None, language = None, sources = None\<rparr>]\<rparr>)],
      currentPageId = Some ''page-1'', theme = light,
      isCommandPaletteOpen = False, isAiSearchOpen = False\<rparr> \<and>
   (\<exists>page.
      load Map.empty example_templates False 7 8 9 Map.empty initial_state =
        \<lparr>pages = [(''page-7'', page)],
         currentPageId = Some ''page-7'', theme = light,
         isCommandPaletteOpen = False, isAiSearchOpen = False\<rparr> \<and>
      page_id page = Some ''page-7'' \<and>
      blocks page =
        [\<lparr>block_id = ''w1'', block_type = H1, content = ''Getting Started'',
          checked = None, src = None, language = None, sources = None\<rparr>])"
proof -
  have n1: "show_int 1 = ''1''" and n2: "show_int 2 = ''2''" and n3: "show_int 3 = ''3''"
    and n7: "show_int 7 = ''7''"
    by code_simp+
  have h1: "[''editor-pages'' \<mapsto> ''{not json''] ''editor-pages'' = Some ''{not json''" by simp
  have h2: "''{not json'' \<noteq> []" by simp
  have h3: "(Map.empty :: string \<rightharpoonup> Page object) ''{not json'' = None" by simp
  have h4: "\<not> truthy ((Map.empty :: storage) ''editor-pages'')" by (simp add: truthy_def)
  from load_seeds_one_page [of "[''editor-pages'' \<mapsto> ''{not json'']" "''{not json''" Map.empty
      Map.empty example_templates False 1 2 3 7 8 9]
    h1 h2 h3 h4
  show ?thesis
    by (simp add: example_templates_def load_theme_def initial_state_def defaultBlocks_def
        Let_def n1 n2 n3 n7)
qed

subsection \<open>Save\<close>

text \<open>
  Claim C9 as stated fails when the store refuses a write. A write that throws ends
  the \<open>try\<close> block, and what comes after it in the block is not run: here the pages
  are not empty and the store refuses the write of \<open>editor-pages\<close>, and the entry
  \<open>editor-currentPageId\<close> stays although \<open>currentPageId\<close> is \<open>null\<close>.
\<close>

theorem save_refused_write_keeps_stale_entry:
  "\<not> truthy (currentPageId (example_state\<lparr>currentPageId := None\<rparr>)) \<and>
   save refuses_pages_write keys_in_a_row
     (example_state\<lparr>currentPageId := None\<rparr>) [''editor-currentPageId'' \<mapsto> ''page-9'']
   = Inr [''editor-currentPageId'' \<mapsto> ''page-9'', ''editor-theme'' \<mapsto> ''dark'']"
  by (simp add: save_def save_pages_def setItem_def removeItem_def truthy_def
      refuses_pages_write_def example_state_def theme_name_def object_keys_def Let_def
      is_array_index_def is_digit_def)

text \<open>
  Claim C9, amended: on a store that refuses no write, the save effect returns, and then:
  when \<open>pages\<close> is empty the entry \<open>editor-pages\<close> is removed (nothing is written
  under it); when \<open>currentPageId\<close> is absent (\<open>null\<close> or empty) the entry
  \<open>editor-currentPageId\<close> is removed; when \<open>pages\<close> is not empty the entry
  \<open>editor-pages\<close> holds the encoding of \<open>pages\<close>, and when \<open>currentPageId\<close> is present
  the entry \<open>editor-currentPageId\<close> holds it.
\<close>

theorem save_on_empty_values:
  assumes "\<forall>st k v. accepts st k v"
  shows "\<exists>st'. save accepts JSON_stringify s st = Inr st' \<and>
     (pages s = [] \<longrightarrow> st' ''editor-pages'' = None) \<and>
     (\<not> truthy (currentPageId s) \<longrightarrow> st' ''editor-currentPageId'' = None) \<and>
     (pages s \<noteq> [] \<longrightarrow> st' ''editor-pages'' = Some (JSON_stringify (pages s))) \<and>
     (truthy (currentPageId s) \<longrightarrow> st' ''editor-currentPageId'' = currentPageId s)"
  using assms
  by (auto simp: save_def save_pages_def setItem_def removeItem_def truthy_def
      object_keys_Nil_iff split: option.splits)

text \<open>
  Two runs on a store that accepts every write: the initial state (no page, no
  current page) on a store that holds both entries, and the example state on an
  empty store, with the keys of \<open>pages\<close> in a row as the encoding.
\<close>

theorem save_on_empty_values_witness:
  "(\<forall>st k v. (\<lambda>st k v. True) (st :: storage) (k :: string) (v :: string)) \<and>
   pages initial_state = [] \<and> \<not> truthy (currentPageId initial_state) \<and>
   pages example_state \<noteq> [] \<and> truthy (currentPageId example_state) \<and>
   (\<exists>st'. save (\<lambda>st k v. True) keys_in_a_row initial_state
            [''editor-pages'' \<mapsto> ''{}'', ''editor-currentPageId'' \<mapsto> ''page-9''] = Inr st' \<and>
          st' ''editor-pages'' = None \<and> st' ''editor-currentPageId'' = None) \<and>
   (\<exists>st'. save (\<lambda>st k v. True) keys_in_a_row example_state Map.empty = Inr st' \<and>
          st' ''editor-pages'' = Some ''page-1page-2'' \<and>
          st' ''editor-currentPageId'' = Some ''page-1'')"
proof -
  have a: "\<forall>st k v. (\<lambda>st k v. True) (st :: storage) (k :: string) (v :: string)" by simp
  have e1: "pages initial_state = []" and e2: "\<not> truthy (currentPageId initial_state)"
    by (simp_all add: initial_state_def truthy_def)
  have n1: "pages example_state \<noteq> []" and n2: "truthy (currentPageId example_state)"
    and n3: "currentPageId example_state = Some ''page-1''"
    and n4: "keys_in_a_row (pages example_state) = ''page-1page-2''"
    by (simp_all add: example_state_def truthy_def keys_in_a_row_def)
  from save_on_empty_values [OF a, of keys_in_a_row initial_state
           "[''editor-pages'' \<mapsto> ''{}'', ''editor-currentPageId'' \<mapsto> ''page-9'']"]
    save_on_empty_values [OF a, of keys_in_a_row example_state Map.empty]
    e1 e2 n1 n2 n3 n4
  show ?thesis by auto
qed

end
